theory Spec2Isabelle
  imports Main "HOL-Library.AList"
begin

section \<open>Query objects\<close>

text \<open>
  The type \<open>Query\<close> of \<^verbatim>\<open>types.ts\<close> maps a string key to a string, a sequence of
  strings or \<^verbatim>\<open>undefined\<close>. A JavaScript object is modelled as an association list in
  insertion order; a key may be present with the value \<^verbatim>\<open>undefined\<close>, which is not the
  same as an absent key. A well-formed object holds every key at most once. (JavaScript
  enumerates the keys that are array indices before the others; the order of the keys
  matters to the serialised query string only.)
\<close>

datatype QueryValue = QUndefined | QString string | QArray "string list"

type_synonym Query = "(string \<times> QueryValue) list"

definition wf_query :: "Query \<Rightarrow> bool" where
  "wf_query q = distinct (map fst q)"

definition obj_keys :: "Query \<Rightarrow> string set" where
  "obj_keys q = fst ` set q"

text \<open>\<^verbatim>\<open>obj[k] = v\<close>: an existing key keeps its position, a new key goes last.\<close>

definition obj_set :: "string \<Rightarrow> QueryValue \<Rightarrow> Query \<Rightarrow> Query" where
  "obj_set k v obj = AList.update k v obj"

text \<open>\<^verbatim>\<open>delete obj[k]\<close>.\<close>

definition obj_delete :: "string \<Rightarrow> Query \<Rightarrow> Query" where
  "obj_delete k obj = AList.delete k obj"

text \<open>
  \<^verbatim>\<open>Object.assign(target, source)\<close>, and with it the spread \<^verbatim>\<open>{ ...target, ...source }\<close>:
  the entries of the source are written into the target one after the other.
\<close>

definition obj_assign :: "Query \<Rightarrow> Query \<Rightarrow> Query" where
  "obj_assign target source = fold (\<lambda>(k, v). obj_set k v) source target"

section \<open>Table state\<close>

text \<open>
  JSON values, for the filter values of \<open>columnFilters\<close> (typed \<^verbatim>\<open>unknown\<close> in the table
  library) and for the comparisons through \<^verbatim>\<open>JSON.stringify\<close>. Numbers are integers here.
\<close>

datatype json =
    JNull
  | JBool bool
  | JNumber int
  | JString string
  | JArray "json list"
  | JObject "(string \<times> json) list"

record ColumnSort =
  sort_id :: string
  desc :: bool

record ColumnFilter =
  filter_id :: string
  filter_value :: json

record PaginationState =
  pageIndex :: nat
  pageSize :: nat

text \<open>
  The type \<open>State\<close> is declared outside the two source files; its fields are the ones
  \<^verbatim>\<open>useBatchedStateUpdate.ts\<close> reads. \<open>rowSelection\<close> is an object from row id to
  boolean, kept in insertion order because \<^verbatim>\<open>JSON.stringify\<close> sees that order.
  \<open>pagination\<close> is always present, so the optional chaining \<^verbatim>\<open>pagination?.pageIndex\<close>
  of the source reads the field.
\<close>

record State =
  globalFilter :: "string option"
  sorting :: "ColumnSort list"
  pagination :: PaginationState
  columnFilters :: "ColumnFilter list"
  columnOrder :: "string list"
  rowSelection :: "(string \<times> bool) list"

section \<open>Options\<close>

text \<open>
  The type \<open>Options\<close> is declared outside the two source files as well. The records below
  hold the parts that \<^verbatim>\<open>useBatchedStateUpdate.ts\<close> reads: \<open>paramNames\<close>,
  \<open>defaultValues\<close> and \<open>encoders\<close>, each optional, with optional fields. A thrown
  JavaScript exception is a value of type \<open>exn\<close>, and an override encoder returns either
  the exception it throws (\<open>Inl\<close>) or the query entries it encodes to (\<open>Inr\<close>).
\<close>

datatype exn = Thrown string

text \<open>
  \<open>paramNames.pagination\<close> is tested with \<^verbatim>\<open>typeof ... === "object"\<close>; every value that
  is not an object of two names is \<open>PaginationNotObject\<close>.
\<close>

datatype PaginationParamNames =
    PaginationObject string string
  | PaginationNotObject

record ParamNames =
  pn_globalFilter :: "string option"
  pn_sorting :: "string option"
  pn_pagination :: "PaginationParamNames option"
  pn_columnFilters :: "string option"
  pn_columnOrder :: "string option"
  pn_rowSelection :: "string option"

record DefaultValues =
  dv_globalFilter :: "string option"
  dv_sorting :: "ColumnSort list option"
  dv_pagination :: "PaginationState option"
  dv_columnFilters :: "ColumnFilter list option"
  dv_columnOrder :: "string list option"
  dv_rowSelection :: "(string \<times> bool) list option"

record Encoders =
  enc_globalFilter :: "(string option \<Rightarrow> exn + Query) option"
  enc_sorting :: "(ColumnSort list \<Rightarrow> exn + Query) option"
  enc_pagination :: "(PaginationState \<Rightarrow> exn + Query) option"
  enc_columnFilters :: "(ColumnFilter list \<Rightarrow> exn + Query) option"
  enc_columnOrder :: "(string list \<Rightarrow> exn + Query) option"
  enc_rowSelection :: "((string \<times> bool) list \<Rightarrow> exn + Query) option"

record Options =
  paramNames :: "ParamNames option"
  defaultValues :: "DefaultValues option"
  encoders :: "Encoders option"

text \<open>
  \<^verbatim>\<open>options?.group?.field\<close>: \<^verbatim>\<open>undefined\<close> as soon as one link of the chain is.
\<close>

definition opt_chain :: "Options option \<Rightarrow> (Options \<Rightarrow> 'g option) \<Rightarrow> ('g \<Rightarrow> 'f option) \<Rightarrow> 'f option" where
  "opt_chain opts grp fld = Option.bind (Option.bind opts grp) fld"

text \<open>
  \<^verbatim>\<open>name || "fallback"\<close> on a string or \<^verbatim>\<open>undefined\<close>: the empty string is falsy too.
\<close>

definition or_name :: "string option \<Rightarrow> string \<Rightarrow> string" where
  "or_name name fallback =
     (case name of None \<Rightarrow> fallback | Some s \<Rightarrow> if s = [] then fallback else s)"

section \<open>The imported functions\<close>

text \<open>
  \<^verbatim>\<open>useBatchedStateUpdate.ts\<close> imports the six default encoders from
  \<^verbatim>\<open>./encoder-decoder\<close> and \<^verbatim>\<open>convertQueryToURLSearchParams\<close>; neither module is among
  the source files. The update takes them as a parameter. A default encoder receives the
  value and the configured default, and returns a query value, \<^verbatim>\<open>undefined\<close> included;
  \<open>encodePagination\<close> returns the two fields \<open>pageIndex\<close> and \<open>pageSize\<close> of its result
  as a pair. \<open>toSearchParams\<close> stands for
  \<^verbatim>\<open>new URLSearchParams(convertQueryToURLSearchParams(q)).toString()\<close>. The imported
  functions are functions of HOL: they return a value for every argument and do not throw.
\<close>

record Imports =
  encodeGlobalFilter :: "string option \<Rightarrow> string option \<Rightarrow> QueryValue"
  encodeSorting :: "ColumnSort list \<Rightarrow> ColumnSort list option \<Rightarrow> QueryValue"
  encodePagination :: "PaginationState \<Rightarrow> PaginationState option \<Rightarrow> QueryValue \<times> QueryValue"
  encodeColumnFilters :: "ColumnFilter list \<Rightarrow> ColumnFilter list option \<Rightarrow> QueryValue"
  encodeColumnOrder :: "string list \<Rightarrow> string list option \<Rightarrow> QueryValue"
  encodeRowSelection :: "(string \<times> bool) list \<Rightarrow> (string \<times> bool) list option \<Rightarrow> QueryValue"
  toSearchParams :: "Query \<Rightarrow> string"

section \<open>\<^verbatim>\<open>JSON.stringify\<close>\<close>

text \<open>
  The update compares four of the slices through \<^verbatim>\<open>JSON.stringify\<close>. The function below
  follows the serialisation of ECMAScript on the values of type \<open>json\<close>: no white space,
  strings quoted with the escapes of \<^verbatim>\<open>QuoteJSONString\<close>, object members in the order
  of the object.
\<close>

definition digit_char :: "nat \<Rightarrow> char" where
  "digit_char d = ''0123456789'' ! d"

fun string_of_nat :: "nat \<Rightarrow> string" where
  "string_of_nat n =
     (if 10 \<le> n then string_of_nat (n div 10) @ [digit_char (n mod 10)]
      else [digit_char n])"

declare string_of_nat.simps [simp del]

definition string_of_int :: "int \<Rightarrow> string" where
  "string_of_int i = (if i < 0 then CHR ''-'' # string_of_nat (nat (- i)) else string_of_nat (nat i))"

definition hex_lower :: "nat \<Rightarrow> char" where
  "hex_lower n = ''0123456789abcdef'' ! (n mod 16)"

definition json_quote_char :: "char \<Rightarrow> string" where
  "json_quote_char c =
     (if c = CHR 0x22 then [CHR 0x5C, CHR 0x22]
      else if c = CHR 0x5C then [CHR 0x5C, CHR 0x5C]
      else if c = CHR 0x08 then [CHR 0x5C, CHR ''b'']
      else if c = CHR 0x0C then [CHR 0x5C, CHR ''f'']
      else if c = CHR 0x0A then [CHR 0x5C, CHR ''n'']
      else if c = CHR 0x0D then [CHR 0x5C, CHR ''r'']
      else if c = CHR 0x09 then [CHR 0x5C, CHR ''t'']
      else if (of_char c :: nat) < 32
        then [CHR 0x5C, CHR ''u'', CHR ''0'', CHR ''0'',
              hex_lower (of_char c div 16), hex_lower (of_char c)]
      else [c])"

definition json_quote :: "string \<Rightarrow> string" where
  "json_quote s = CHR 0x22 # concat (map json_quote_char s) @ [CHR 0x22]"

fun join :: "string \<Rightarrow> string list \<Rightarrow> string" where
  "join sep [] = []"
| "join sep [x] = x"
| "join sep (x # y # ys) = x @ sep @ join sep (y # ys)"

fun JSON_stringify :: "json \<Rightarrow> string" where
  "JSON_stringify JNull = ''null''"
| "JSON_stringify (JBool b) = (if b then ''true'' else ''false'')"
| "JSON_stringify (JNumber i) = string_of_int i"
| "JSON_stringify (JString s) = json_quote s"
| "JSON_stringify (JArray xs) = ''['' @ join '','' (map JSON_stringify xs) @ '']''"
| "JSON_stringify (JObject kvs) =
     ''{'' @ join '','' (map (\<lambda>kv. json_quote (fst kv) @ '':'' @ JSON_stringify (snd kv)) kvs) @ ''}''"

text \<open>The four slices as the JSON values that \<^verbatim>\<open>JSON.stringify\<close> sees.\<close>

definition sorting_json :: "ColumnSort list \<Rightarrow> json" where
  "sorting_json xs =
     JArray (map (\<lambda>s. JObject [(''id'', JString (sort_id s)), (''desc'', JBool (desc s))]) xs)"

definition columnFilters_json :: "ColumnFilter list \<Rightarrow> json" where
  "columnFilters_json fs =
     JArray (map (\<lambda>f. JObject [(''id'', JString (filter_id f)), (''value'', filter_value f)]) fs)"

definition columnOrder_json :: "string list \<Rightarrow> json" where
  "columnOrder_json xs = JArray (map JString xs)"

definition rowSelection_json :: "(string \<times> bool) list \<Rightarrow> json" where
  "rowSelection_json sel = JObject (map (\<lambda>kv. (fst kv, JBool (snd kv))) sel)"

section \<open>The batched state update\<close>

text \<open>
  The router is injected by the caller. Its \<open>navigate\<close> is an effect; the model records
  every call in \<open>navigated\<close>, the URLs in the order of the calls. What the promise of
  \<open>navigate\<close> resolves to is the router's business and not part of the model.
\<close>

record Router =
  query :: Query
  pathname :: string
  navigated :: "string list"

definition navigate :: "string \<Rightarrow> Router \<Rightarrow> Router" where
  "navigate url router = router\<lparr>navigated := navigated router @ [url]\<rparr>"

subsection \<open>Parameter names (lines 18 to 40)\<close>

definition globalFilterParam :: "Options option \<Rightarrow> string" where
  "globalFilterParam options = or_name (opt_chain options paramNames pn_globalFilter) ''globalFilter''"

definition sortingParam :: "Options option \<Rightarrow> string" where
  "sortingParam options = or_name (opt_chain options paramNames pn_sorting) ''sorting''"

definition columnFiltersParam :: "Options option \<Rightarrow> string" where
  "columnFiltersParam options = or_name (opt_chain options paramNames pn_columnFilters) ''columnFilters''"

definition columnOrderParam :: "Options option \<Rightarrow> string" where
  "columnOrderParam options = or_name (opt_chain options paramNames pn_columnOrder) ''columnOrder''"

definition rowSelectionParam :: "Options option \<Rightarrow> string" where
  "rowSelectionParam options = or_name (opt_chain options paramNames pn_rowSelection) ''rowSelection''"

definition paginationParams :: "Options option \<Rightarrow> PaginationParamNames" where
  "paginationParams options =
     (case opt_chain options paramNames pn_pagination of
        None \<Rightarrow> PaginationObject ''pageIndex'' ''pageSize''
      | Some p \<Rightarrow> p)"

definition pageIndexParam :: "Options option \<Rightarrow> string" where
  "pageIndexParam options =
     (case paginationParams options of
        PaginationObject i s \<Rightarrow> i
      | PaginationNotObject \<Rightarrow> ''pageIndex'')"

definition pageSizeParam :: "Options option \<Rightarrow> string" where
  "pageSizeParam options =
     (case paginationParams options of
        PaginationObject i s \<Rightarrow> s
      | PaginationNotObject \<Rightarrow> ''pageSize'')"

subsection \<open>The six slices (lines 42 to 173)\<close>

text \<open>
  The body works on two objects: \<open>query\<close>, a copy of the router's query from which
  parameters are deleted, and \<open>updates\<close>, to which parameters are written. A value of type
  \<open>work\<close> is the pair \<open>(query, updates)\<close>.
\<close>

type_synonym work = "Query \<times> Query"

text \<open>
  \<^verbatim>\<open>Object.assign(updates, encoder(value))\<close>: an exception of the override encoder leaves
  the body at once.
\<close>

definition merge_override :: "exn + Query \<Rightarrow> work \<Rightarrow> exn + work" where
  "merge_override r w =
     (case r of
        Inl e \<Rightarrow> Inl e
      | Inr entries \<Rightarrow> Inr (fst w, obj_assign (snd w) entries))"

text \<open>
  \<^verbatim>\<open>if (encoded !== undefined) updates[param] = encoded; else delete query[param];\<close>
\<close>

definition set_or_delete :: "string \<Rightarrow> QueryValue \<Rightarrow> work \<Rightarrow> work" where
  "set_or_delete param encoded w =
     (if encoded \<noteq> QUndefined then (fst w, obj_set param encoded (snd w))
      else (obj_delete param (fst w), snd w))"

definition step_globalFilter :: "Imports \<Rightarrow> Options option \<Rightarrow> State \<Rightarrow> State \<Rightarrow> work \<Rightarrow> exn + work" where
  "step_globalFilter imp options oldState newState w =
     (if globalFilter newState \<noteq> globalFilter oldState then
        (case opt_chain options encoders enc_globalFilter of
           Some encoder \<Rightarrow> merge_override (encoder (globalFilter newState)) w
         | None \<Rightarrow>
             Inr (set_or_delete (globalFilterParam options)
                    (encodeGlobalFilter imp (globalFilter newState)
                       (opt_chain options defaultValues dv_globalFilter)) w))
      else Inr w)"

definition step_sorting :: "Imports \<Rightarrow> Options option \<Rightarrow> State \<Rightarrow> State \<Rightarrow> work \<Rightarrow> exn + work" where
  "step_sorting imp options oldState newState w =
     (if JSON_stringify (sorting_json (sorting newState))
           \<noteq> JSON_stringify (sorting_json (sorting oldState)) then
        (case opt_chain options encoders enc_sorting of
           Some encoder \<Rightarrow> merge_override (encoder (sorting newState)) w
         | None \<Rightarrow>
             Inr (set_or_delete (sortingParam options)
                    (encodeSorting imp (sorting newState)
                       (opt_chain options defaultValues dv_sorting)) w))
      else Inr w)"

definition step_pagination :: "Imports \<Rightarrow> Options option \<Rightarrow> State \<Rightarrow> State \<Rightarrow> work \<Rightarrow> exn + work" where
  "step_pagination imp options oldState newState w =
     (if pageIndex (pagination newState) \<noteq> pageIndex (pagination oldState)
         \<or> pageSize (pagination newState) \<noteq> pageSize (pagination oldState) then
        (case opt_chain options encoders enc_pagination of
           Some encoder \<Rightarrow> merge_override (encoder (pagination newState)) w
         | None \<Rightarrow>
             (let encoded = encodePagination imp (pagination newState)
                              (opt_chain options defaultValues dv_pagination)
              in Inr (set_or_delete (pageSizeParam options) (snd encoded)
                       (set_or_delete (pageIndexParam options) (fst encoded) w))))
      else Inr w)"

definition step_columnFilters :: "Imports \<Rightarrow> Options option \<Rightarrow> State \<Rightarrow> State \<Rightarrow> work \<Rightarrow> exn + work" where
  "step_columnFilters imp options oldState newState w =
     (if JSON_stringify (columnFilters_json (columnFilters newState))
           \<noteq> JSON_stringify (columnFilters_json (columnFilters oldState)) then
        (case opt_chain options encoders enc_columnFilters of
           Some encoder \<Rightarrow> merge_override (encoder (columnFilters newState)) w
         | None \<Rightarrow>
             Inr (set_or_delete (columnFiltersParam options)
                    (encodeColumnFilters imp (columnFilters newState)
                       (opt_chain options defaultValues dv_columnFilters)) w))
      else Inr w)"

definition step_columnOrder :: "Imports \<Rightarrow> Options option \<Rightarrow> State \<Rightarrow> State \<Rightarrow> work \<Rightarrow> exn + work" where
  "step_columnOrder imp options oldState newState w =
     (if JSON_stringify (columnOrder_json (columnOrder newState))
           \<noteq> JSON_stringify (columnOrder_json (columnOrder oldState)) then
        (case opt_chain options encoders enc_columnOrder of
           Some encoder \<Rightarrow> merge_override (encoder (columnOrder newState)) w
         | None \<Rightarrow>
             Inr (set_or_delete (columnOrderParam options)
                    (encodeColumnOrder imp (columnOrder newState)
                       (opt_chain options defaultValues dv_columnOrder)) w))
      else Inr w)"

definition step_rowSelection :: "Imports \<Rightarrow> Options option \<Rightarrow> State \<Rightarrow> State \<Rightarrow> work \<Rightarrow> exn + work" where
  "step_rowSelection imp options oldState newState w =
     (if JSON_stringify (rowSelection_json (rowSelection newState))
           \<noteq> JSON_stringify (rowSelection_json (rowSelection oldState)) then
        (case opt_chain options encoders enc_rowSelection of
           Some encoder \<Rightarrow> merge_override (encoder (rowSelection newState)) w
         | None \<Rightarrow>
             Inr (set_or_delete (rowSelectionParam options)
                    (encodeRowSelection imp (rowSelection newState)
                       (opt_chain options defaultValues dv_rowSelection)) w))
      else Inr w)"

text \<open>Sequencing: a statement runs only if no exception left the body before it.\<close>

definition and_then :: "exn + 'a \<Rightarrow> ('a \<Rightarrow> exn + 'b) \<Rightarrow> exn + 'b" where
  "and_then r f = (case r of Inl e \<Rightarrow> Inl e | Inr x \<Rightarrow> f x)"

text \<open>
  Lines 15 to 173: from the copy of the router's query and the empty \<open>updates\<close>, the six
  slices in the order of the source.
\<close>

definition batched_updates :: "Imports \<Rightarrow> Options option \<Rightarrow> Router \<Rightarrow> State \<Rightarrow> State \<Rightarrow> exn + work" where
  "batched_updates imp options router oldState newState =
     and_then (and_then (and_then (and_then (and_then
       (step_globalFilter imp options oldState newState (query router, []))
       (step_sorting imp options oldState newState))
       (step_pagination imp options oldState newState))
       (step_columnFilters imp options oldState newState))
       (step_columnOrder imp options oldState newState))
       (step_rowSelection imp options oldState newState)"

subsection \<open>Merge, clean, navigate (lines 175 to 190)\<close>

definition finalQuery :: "work \<Rightarrow> Query" where
  "finalQuery w = obj_assign (fst w) (snd w)"

definition cleanQuery :: "Query \<Rightarrow> Query" where
  "cleanQuery q = filter (\<lambda>kv. snd kv \<noteq> QUndefined) q"

definition navigation_url :: "Imports \<Rightarrow> Router \<Rightarrow> Query \<Rightarrow> string" where
  "navigation_url imp router q =
     (let searchParams = toSearchParams imp q
      in pathname router @ (if searchParams \<noteq> [] then ''?'' @ searchParams else []))"

text \<open>
  The query that the update navigates to, when it gets there: the cleaned merge of the
  two work objects.
\<close>

definition navigated_query :: "Imports \<Rightarrow> Options option \<Rightarrow> Router \<Rightarrow> State \<Rightarrow> State \<Rightarrow> exn + Query" where
  "navigated_query imp options router oldState newState =
     and_then (batched_updates imp options router oldState newState)
       (\<lambda>w. Inr (cleanQuery (finalQuery w)))"

text \<open>
  The callback of \<open>useBatchedStateUpdate\<close>. The result is the exception that left the
  body, if any, and the router after the call.
\<close>

definition update :: "Imports \<Rightarrow> Options option \<Rightarrow> Router \<Rightarrow> State \<Rightarrow> State \<Rightarrow> exn option \<times> Router" where
  "update imp options router oldState newState =
     (case navigated_query imp options router oldState newState of
        Inl e \<Rightarrow> (Some e, router)
      | Inr q \<Rightarrow> (None, navigate (navigation_url imp router q) router))"

section \<open>The update as a list of slices\<close>

text \<open>
  The six blocks of the body have one shape. A \<open>slice\<close> holds what a block depends on:
  whether the slice changed, the result of the override encoder when one is configured,
  and the parameters with the values that the default encoder gives them.
\<close>

type_synonym slice = "bool \<times> (exn + Query) option \<times> (string \<times> QueryValue) list"

definition run_slice :: "slice \<Rightarrow> work \<Rightarrow> exn + work" where
  "run_slice sl w =
     (case sl of (changed, override, writes) \<Rightarrow>
        if changed then
          (case override of
             Some r \<Rightarrow> merge_override r w
           | None \<Rightarrow> Inr (fold (\<lambda>kv. set_or_delete (fst kv) (snd kv)) writes w))
        else Inr w)"

fun run_slices :: "slice list \<Rightarrow> work \<Rightarrow> exn + work" where
  "run_slices [] w = Inr w"
| "run_slices (sl # sls) w = and_then (run_slice sl w) (run_slices sls)"

definition slice_globalFilter :: "Imports \<Rightarrow> Options option \<Rightarrow> State \<Rightarrow> State \<Rightarrow> slice" where
  "slice_globalFilter imp options oldState newState =
     (globalFilter newState \<noteq> globalFilter oldState,
      map_option (\<lambda>encoder. encoder (globalFilter newState))
        (opt_chain options encoders enc_globalFilter),
      [(globalFilterParam options,
        encodeGlobalFilter imp (globalFilter newState)
          (opt_chain options defaultValues dv_globalFilter))])"

definition slice_sorting :: "Imports \<Rightarrow> Options option \<Rightarrow> State \<Rightarrow> State \<Rightarrow> slice" where
  "slice_sorting imp options oldState newState =
     (JSON_stringify (sorting_json (sorting newState))
        \<noteq> JSON_stringify (sorting_json (sorting oldState)),
      map_option (\<lambda>encoder. encoder (sorting newState))
        (opt_chain options encoders enc_sorting),
      [(sortingParam options,
        encodeSorting imp (sorting newState) (opt_chain options defaultValues dv_sorting))])"

definition slice_pagination :: "Imports \<Rightarrow> Options option \<Rightarrow> State \<Rightarrow> State \<Rightarrow> slice" where
  "slice_pagination imp options oldState newState =
     (pageIndex (pagination newState) \<noteq> pageIndex (pagination oldState)
        \<or> pageSize (pagination newState) \<noteq> pageSize (pagination oldState),
      map_option (\<lambda>encoder. encoder (pagination newState))
        (opt_chain options encoders enc_pagination),
      [(pageIndexParam options,
        fst (encodePagination imp (pagination newState)
               (opt_chain options defaultValues dv_pagination))),
       (pageSizeParam options,
        snd (encodePagination imp (pagination newState)
               (opt_chain options defaultValues dv_pagination)))])"

definition slice_columnFilters :: "Imports \<Rightarrow> Options option \<Rightarrow> State \<Rightarrow> State \<Rightarrow> slice" where
  "slice_columnFilters imp options oldState newState =
     (JSON_stringify (columnFilters_json (columnFilters newState))
        \<noteq> JSON_stringify (columnFilters_json (columnFilters oldState)),
      map_option (\<lambda>encoder. encoder (columnFilters newState))
        (opt_chain options encoders enc_columnFilters),
      [(columnFiltersParam options,
        encodeColumnFilters imp (columnFilters newState)
          (opt_chain options defaultValues dv_columnFilters))])"

definition slice_columnOrder :: "Imports \<Rightarrow> Options option \<Rightarrow> State \<Rightarrow> State \<Rightarrow> slice" where
  "slice_columnOrder imp options oldState newState =
     (JSON_stringify (columnOrder_json (columnOrder newState))
        \<noteq> JSON_stringify (columnOrder_json (columnOrder oldState)),
      map_option (\<lambda>encoder. encoder (columnOrder newState))
        (opt_chain options encoders enc_columnOrder),
      [(columnOrderParam options,
        encodeColumnOrder imp (columnOrder newState)
          (opt_chain options defaultValues dv_columnOrder))])"

definition slice_rowSelection :: "Imports \<Rightarrow> Options option \<Rightarrow> State \<Rightarrow> State \<Rightarrow> slice" where
  "slice_rowSelection imp options oldState newState =
     (JSON_stringify (rowSelection_json (rowSelection newState))
        \<noteq> JSON_stringify (rowSelection_json (rowSelection oldState)),
      map_option (\<lambda>encoder. encoder (rowSelection newState))
        (opt_chain options encoders enc_rowSelection),
      [(rowSelectionParam options,
        encodeRowSelection imp (rowSelection newState)
          (opt_chain options defaultValues dv_rowSelection))])"

definition slices :: "Imports \<Rightarrow> Options option \<Rightarrow> State \<Rightarrow> State \<Rightarrow> slice list" where
  "slices imp options oldState newState =
     [slice_globalFilter imp options oldState newState,
      slice_sorting imp options oldState newState,
      slice_pagination imp options oldState newState,
      slice_columnFilters imp options oldState newState,
      slice_columnOrder imp options oldState newState,
      slice_rowSelection imp options oldState newState]"

text \<open>
  The keys that a slice writes into \<open>updates\<close>, and the keys that it deletes from
  \<open>query\<close>. An unchanged slice does neither.
\<close>

definition slice_written :: "slice \<Rightarrow> string list" where
  "slice_written sl =
     (case sl of (changed, override, writes) \<Rightarrow>
        if changed then
          (case override of
             Some (Inl e) \<Rightarrow> []
           | Some (Inr entries) \<Rightarrow> map fst entries
           | None \<Rightarrow> map fst (filter (\<lambda>kv. snd kv \<noteq> QUndefined) writes))
        else [])"

definition slice_deleted :: "slice \<Rightarrow> string list" where
  "slice_deleted sl =
     (case sl of (changed, override, writes) \<Rightarrow>
        if changed \<and> override = None
        then map fst (filter (\<lambda>kv. snd kv = QUndefined) writes)
        else [])"

definition written_by :: "slice list \<Rightarrow> string set" where
  "written_by sls = set (concat (map slice_written sls))"


section \<open>The default encoders and the query adapter, from the specification\<close>

text \<open>
  The definitions of this section do not come from source code: the modules
  \<^verbatim>\<open>encoder-decoder\<close> and \<^verbatim>\<open>convertQueryToURLSearchParams\<close> are not among the source
  files. Each definition follows the words of the specification and says which.
\<close>

definition hex_upper :: "nat \<Rightarrow> char" where
  "hex_upper n = ''0123456789ABCDEF'' ! (n mod 16)"

definition percent_encode :: "char \<Rightarrow> string" where
  "percent_encode c = [CHR ''%'', hex_upper (of_char c div 16), hex_upper (of_char c)]"

definition is_alnum :: "char \<Rightarrow> bool" where
  "is_alnum c =
     (c \<in> set ''ABCDEFGHIJKLMNOPQRSTUVWXYZabcdefghijklmnopqrstuvwxyz0123456789'')"

text \<open>
  \<^verbatim>\<open>encodeURIComponent\<close> of ECMAScript on a string of bytes: letters, digits and the
  marks \<^verbatim>\<open>- _ . ! ~ * ' ( )\<close> stay, every other byte becomes \<^verbatim>\<open>%XX\<close>.
\<close>

definition encodeURIComponent :: "string \<Rightarrow> string" where
  "encodeURIComponent s =
     concat (map (\<lambda>c. if is_alnum c \<or> c \<in> set ''-_.!~*()'' \<or> c = CHR 0x27 then [c]
                        else percent_encode c) s)"

text \<open>
  Modelled from the spec: \<open>encodeGlobalFilter\<close> of the absent module
  \<^verbatim>\<open>encoder-decoder\<close>. Section 4.1: the value "encodes to the string itself; undefined or
  equal-to-default encodes to undefined".
\<close>

definition spec_encodeGlobalFilter :: "string option \<Rightarrow> string option \<Rightarrow> QueryValue" where
  "spec_encodeGlobalFilter v d =
     (case v of
        None \<Rightarrow> QUndefined
      | Some s \<Rightarrow> if d = Some s then QUndefined else QString s)"

text \<open>
  Modelled from the spec: \<open>encodePagination\<close> of the absent module \<^verbatim>\<open>encoder-decoder\<close>.
  Section 4.1: pagination "encodes to two independent scalar values under two independent
  parameter names, each omitted independently when equal to its configured default;
  pageIndex is offset by +1 on encode". The scalars are written in decimal.
\<close>

definition spec_encodePagination :: "PaginationState \<Rightarrow> PaginationState option \<Rightarrow> QueryValue \<times> QueryValue" where
  "spec_encodePagination p d =
     (if map_option pageIndex d = Some (pageIndex p) then QUndefined
      else QString (string_of_nat (pageIndex p + 1)),
      if map_option pageSize d = Some (pageSize p) then QUndefined
      else QString (string_of_nat (pageSize p)))"

text \<open>
  Modelled from the spec: the four sequence-valued default encoders of the absent module
  \<^verbatim>\<open>encoder-decoder\<close>. Section 4.1: an empty sequence or mapping encodes to undefined,
  and so does a value equal to its configured default; any other value encodes to one
  string. The format of that string is the parameter \<open>fmt\<close>.
\<close>

definition spec_encodeSequence :: "('a list \<Rightarrow> string) \<Rightarrow> 'a list \<Rightarrow> 'a list option \<Rightarrow> QueryValue" where
  "spec_encodeSequence fmt xs d =
     (if xs = [] \<or> d = Some xs then QUndefined else QString (fmt xs))"

text \<open>
  Modelled from the spec: the string formats. Section 4.1 and section 6: columnFilters
  "uses \<^verbatim>\<open>id.<url-encoded-JSON-value>\<close> per entry"; sorting is "a delimited string format
  preserving order and direction per column id"; columnOrder is "a delimited string";
  rowSelection "encodes only the keys whose value is true, as a delimited string of ids".
  The specification names neither the delimiter nor the direction tags: the delimiter is
  the parameter \<open>sep\<close>, the tag of a direction the parameter \<open>dir\<close>.
\<close>

definition columnFilters_format :: "string \<Rightarrow> ColumnFilter list \<Rightarrow> string" where
  "columnFilters_format sep fs =
     join sep (map (\<lambda>f. filter_id f @ ''.'' @ encodeURIComponent (JSON_stringify (filter_value f))) fs)"

definition sorting_format :: "string \<Rightarrow> (bool \<Rightarrow> string) \<Rightarrow> ColumnSort list \<Rightarrow> string" where
  "sorting_format sep dir xs = join sep (map (\<lambda>s. sort_id s @ ''.'' @ dir (desc s)) xs)"

definition columnOrder_format :: "string \<Rightarrow> string list \<Rightarrow> string" where
  "columnOrder_format sep xs = join sep xs"

definition rowSelection_format :: "string \<Rightarrow> (string \<times> bool) list \<Rightarrow> string" where
  "rowSelection_format sep sel = join sep (map fst (filter snd sel))"

text \<open>
  Modelled from the spec: \<^verbatim>\<open>convertQueryToURLSearchParams\<close> followed by
  \<^verbatim>\<open>URLSearchParams.toString\<close>. Section 4.2: the adapter "flattens array-valued entries
  into repeated or delimited representation" and "omits entries whose value is undefined";
  section 6: the result is a "standard \<^verbatim>\<open>key=value&key2=value2\<close> query string". An array
  is written as one pair per element; names and values are escaped as a URL search
  parameter list escapes them (a space becomes \<^verbatim>\<open>+\<close>).
\<close>

definition form_encode :: "string \<Rightarrow> string" where
  "form_encode s =
     concat (map (\<lambda>c. if is_alnum c \<or> c \<in> set ''*-._'' then [c]
                        else if c = CHR '' '' then ''+''
                        else percent_encode c) s)"

definition spec_toSearchParams :: "Query \<Rightarrow> string" where
  "spec_toSearchParams q =
     join ''&'' (concat (map (\<lambda>kv.
       (case snd kv of
          QUndefined \<Rightarrow> []
        | QString s \<Rightarrow> [form_encode (fst kv) @ ''='' @ form_encode s]
        | QArray xs \<Rightarrow> map (\<lambda>x. form_encode (fst kv) @ ''='' @ form_encode x) xs)) q))"

text \<open>
  The imports with the definitions above, the delimiter a comma and the directions
  \<^verbatim>\<open>asc\<close> and \<^verbatim>\<open>desc\<close>.
\<close>

definition spec_imports :: Imports where
  "spec_imports =
     \<lparr>encodeGlobalFilter = spec_encodeGlobalFilter,
      encodeSorting = spec_encodeSequence (sorting_format '','' (\<lambda>d. if d then ''desc'' else ''asc'')),
      encodePagination = spec_encodePagination,
      encodeColumnFilters = spec_encodeSequence (columnFilters_format '',''),
      encodeColumnOrder = spec_encodeSequence (columnOrder_format '',''),
      encodeRowSelection = spec_encodeSequence (rowSelection_format '',''),
      toSearchParams = spec_toSearchParams\<rparr>"

section \<open>The states and routers of the examples\<close>

text \<open>The table state before any change: nothing filtered, sorted or selected.\<close>

definition initial_state :: State where
  "initial_state =
     \<lparr>globalFilter = None, sorting = [], pagination = \<lparr>pageIndex = 0, pageSize = 10\<rparr>,
      columnFilters = [], columnOrder = [], rowSelection = []\<rparr>"

definition router_at :: "string \<Rightarrow> Query \<Rightarrow> Router" where
  "router_at path q = \<lparr>query = q, pathname = path, navigated = []\<rparr>"

definition no_encoders :: Encoders where
  "no_encoders =
     \<lparr>enc_globalFilter = None, enc_sorting = None, enc_pagination = None,
      enc_columnFilters = None, enc_columnOrder = None, enc_rowSelection = None\<rparr>"

definition options_with :: "Encoders \<Rightarrow> Options option" where
  "options_with enc = Some \<lparr>paramNames = None, defaultValues = None, encoders = Some enc\<rparr>"

section \<open>Exceptions of a run\<close>

text \<open>
  The exception of the first slice, in the order of the body, that changed and whose
  override encoder throws.
\<close>

fun first_thrown :: "slice list \<Rightarrow> exn option" where
  "first_thrown [] = None"
| "first_thrown ((changed, override, writes) # sls) =
     (case override of
        Some (Inl e) \<Rightarrow> if changed then Some e else first_thrown sls
      | _ \<Rightarrow> first_thrown sls)"

section \<open>The slices around the pagination\<close>



section \<open>The default decoders, from the specification\<close>

text \<open>A string of decimal digits as a number; \<open>None\<close> for any other string.\<close>

fun nat_of_digits :: "string \<Rightarrow> nat \<Rightarrow> nat option" where
  "nat_of_digits [] acc = Some acc"
| "nat_of_digits (c # cs) acc =
     (if 48 \<le> (of_char c :: nat) \<and> (of_char c :: nat) \<le> 57
      then nat_of_digits cs (10 * acc + (of_char c - 48))
      else None)"

definition nat_of_string :: "string \<Rightarrow> nat option" where
  "nat_of_string s = (if s = [] then None else nat_of_digits s 0)"

definition decode_scalar :: "QueryValue \<Rightarrow> nat option" where
  "decode_scalar v = (case v of QString s \<Rightarrow> nat_of_string s | _ \<Rightarrow> None)"

text \<open>
  Modelled from the spec: \<open>decodePagination\<close> of the absent module \<^verbatim>\<open>encoder-decoder\<close>.
  Section 4.1: "pageIndex is offset by +1 on encode and -1 on decode (never negative
  after decode; decode of absent/invalid input yields default)"; section 3: "decoding a
  missing parameter must yield the field's default". The decoder receives the two query
  values and the default. The subtraction is that of the natural numbers, which stops at
  zero.
\<close>

definition spec_decodePagination :: "QueryValue \<times> QueryValue \<Rightarrow> PaginationState \<Rightarrow> PaginationState" where
  "spec_decodePagination v d =
     \<lparr>pageIndex = (case decode_scalar (fst v) of Some n \<Rightarrow> n - 1 | None \<Rightarrow> pageIndex d),
      pageSize = (case decode_scalar (snd v) of Some n \<Rightarrow> n | None \<Rightarrow> pageSize d)\<rparr>"

section \<open>The debounce layer, from the specification\<close>

text \<open>
  Modelled from the spec: the debounce and scheduling layer, which is not among the source
  files. Section 4.4: each slice has a delay in milliseconds, zero by default; the state is
  "a per-slice pending-timer set"; "on a state-change event, for each changed slice with a
  positive delay, (re)start that slice's timer, canceling any previously pending timer for
  the same slice; on expiry, trigger a Batched Updater call using the latest observed
  old/new snapshots for that slice merged with any other slices currently due. Slices with
  zero delay update immediately without waiting."

  Time is a number of milliseconds. A pending timer holds its slice, its deadline and the
  latest value observed for the slice. A navigation is recorded with its time and the
  slices it carries.
\<close>

datatype slice_name =
  GlobalFilter | Sorting | Pagination | ColumnFilters | ColumnOrder | RowSelection






section \<open>Encoding and decoding a table state, from the specification\<close>















section \<open>Properties of the object operations\<close>

lemma map_of_obj_set: "map_of (obj_set k v q) = (map_of q)(k \<mapsto> v)"
  by (simp add: obj_set_def update_conv')


lemma wf_obj_set: "wf_query q \<Longrightarrow> wf_query (obj_set k v q)"
  by (simp add: obj_set_def wf_query_def distinct_update)



lemma wf_obj_delete: "wf_query q \<Longrightarrow> wf_query (obj_delete k q)"
  by (simp add: obj_delete_def wf_query_def distinct_delete)




lemma wf_obj_assign: "wf_query t \<Longrightarrow> wf_query (obj_assign t s)"
  unfolding obj_assign_def
  by (induction s arbitrary: t) (auto simp: wf_obj_set)



lemma set_cleanQuery: "(k, v) \<in> set (cleanQuery q) \<longleftrightarrow> (k, v) \<in> set q \<and> v \<noteq> QUndefined"
  by (auto simp: cleanQuery_def)



subsection \<open>The body is the run of the six slices\<close>

lemma step_globalFilter_slice:
  "step_globalFilter imp options oldState newState
     = run_slice (slice_globalFilter imp options oldState newState)"
  by (rule ext) (simp add: step_globalFilter_def run_slice_def slice_globalFilter_def split: option.splits)

lemma step_sorting_slice:
  "step_sorting imp options oldState newState
     = run_slice (slice_sorting imp options oldState newState)"
  by (rule ext) (simp add: step_sorting_def run_slice_def slice_sorting_def split: option.splits)

lemma step_pagination_slice:
  "step_pagination imp options oldState newState
     = run_slice (slice_pagination imp options oldState newState)"
  by (rule ext) (simp add: step_pagination_def run_slice_def slice_pagination_def Let_def split: option.splits)

lemma step_columnFilters_slice:
  "step_columnFilters imp options oldState newState
     = run_slice (slice_columnFilters imp options oldState newState)"
  by (rule ext) (simp add: step_columnFilters_def run_slice_def slice_columnFilters_def split: option.splits)

lemma step_columnOrder_slice:
  "step_columnOrder imp options oldState newState
     = run_slice (slice_columnOrder imp options oldState newState)"
  by (rule ext) (simp add: step_columnOrder_def run_slice_def slice_columnOrder_def split: option.splits)

lemma step_rowSelection_slice:
  "step_rowSelection imp options oldState newState
     = run_slice (slice_rowSelection imp options oldState newState)"
  by (rule ext) (simp add: step_rowSelection_def run_slice_def slice_rowSelection_def split: option.splits)

lemma and_then_assoc: "and_then (and_then r f) g = and_then r (\<lambda>x. and_then (f x) g)"
  by (simp add: and_then_def split: sum.splits)

lemma and_then_Inr: "and_then r Inr = r"
  by (simp add: and_then_def split: sum.splits)

lemma run_slices_Nil_fun: "run_slices [] = Inr"
  by (rule ext) simp

lemma run_slices_Cons_fun:
  "run_slices (sl # sls) = (\<lambda>w. and_then (run_slice sl w) (run_slices sls))"
  by (rule ext) simp

lemma batched_updates_slices:
  "batched_updates imp options router oldState newState
     = run_slices (slices imp options oldState newState) (query router, [])"
  unfolding batched_updates_def slices_def
  by (simp add: step_globalFilter_slice step_sorting_slice step_pagination_slice
        step_columnFilters_slice step_columnOrder_slice step_rowSelection_slice
        and_then_assoc and_then_Inr run_slices_Nil_fun run_slices_Cons_fun
      del: run_slices.simps)


subsection \<open>What one slice does to the two work objects\<close>





lemma set_or_delete_wf:
  "wf_query (fst w) \<Longrightarrow> wf_query (fst (set_or_delete k v w))"
  "wf_query (snd w) \<Longrightarrow> wf_query (snd (set_or_delete k v w))"
  by (simp_all add: set_or_delete_def wf_obj_delete wf_obj_set)





lemma fold_set_or_delete_wf:
  "wf_query (fst w) \<Longrightarrow> wf_query (fst (fold (\<lambda>kv. set_or_delete (fst kv) (snd kv)) ws w))"
  "wf_query (snd w) \<Longrightarrow> wf_query (snd (fold (\<lambda>kv. set_or_delete (fst kv) (snd kv)) ws w))"
  by (induction ws arbitrary: w) (simp_all add: set_or_delete_wf)

lemma obj_keys_conv: "obj_keys q = set (map fst q)"
  by (simp add: obj_keys_def)

lemma run_slice_cases:
  assumes "run_slice sl w = Inr w'"
  obtains (unchanged) override writes where "sl = (False, override, writes)" "w' = w"
    | (overridden) entries writes where "sl = (True, Some (Inr entries), writes)"
        "w' = (fst w, obj_assign (snd w) entries)"
    | (default) writes where "sl = (True, None, writes)"
        "w' = fold (\<lambda>kv. set_or_delete (fst kv) (snd kv)) writes w"
proof -
  obtain changed override writes where sl: "sl = (changed, override, writes)"
    by (cases sl) auto
  show thesis
  proof (cases changed)
    case False
    with assms sl show thesis
      by (intro unchanged [of override writes]) (simp_all add: run_slice_def)
  next
    case True
    show thesis
    proof (cases override)
      case None
      with assms sl True show thesis
        by (intro default [of writes]) (simp_all add: run_slice_def)
    next
      case (Some r)
      with assms sl True obtain entries where "r = Inr entries"
        by (cases r) (simp_all add: run_slice_def merge_override_def)
      with assms sl True Some show thesis
        by (intro overridden [of entries writes]) (simp_all add: run_slice_def merge_override_def)
    qed
  qed
qed






lemma run_slice_wf_updates:
  assumes "run_slice sl w = Inr w'" and "wf_query (snd w)"
  shows "wf_query (snd w')"
  using assms
  by (cases rule: run_slice_cases) (simp_all add: fold_set_or_delete_wf wf_obj_assign)


subsection \<open>What a run of slices does to the two work objects\<close>

lemma run_slices_Cons_Inr:
  "run_slices (sl # sls) w = Inr w' \<longleftrightarrow>
     (\<exists>w1. run_slice sl w = Inr w1 \<and> run_slices sls w1 = Inr w')"
  by (cases "run_slice sl w") (simp_all add: and_then_def)










lemma run_slices_wf_updates:
  "run_slices sls w = Inr w' \<Longrightarrow> wf_query (snd w) \<Longrightarrow> wf_query (snd w')"
proof (induction sls arbitrary: w)
  case Nil
  then show ?case by simp
next
  case (Cons sl sls)
  from Cons.prems(1) obtain w1
    where 1: "run_slice sl w = Inr w1" and 2: "run_slices sls w1 = Inr w'"
    unfolding run_slices_Cons_Inr by blast
  show ?case
    using Cons.IH [OF 2 run_slice_wf_updates [OF 1 Cons.prems(2)]] .
qed


subsection \<open>From the work objects to the navigated query\<close>





subsection \<open>Exceptions\<close>

lemma run_slice_Inl:
  "run_slice (changed, override, writes) w = Inl e \<longleftrightarrow> changed \<and> override = Some (Inl e)"
  by (auto simp: run_slice_def merge_override_def split: option.splits sum.splits)

lemma run_slices_thrown:
  "run_slices sls w = Inl e \<longleftrightarrow> first_thrown sls = Some e"
proof (induction sls arbitrary: w)
  case Nil
  then show ?case by simp
next
  case (Cons sl sls)
  obtain changed override writes where sl: "sl = (changed, override, writes)"
    by (cases sl) auto
  show ?case
  proof (cases "run_slice sl w")
    case (Inl e')
    then have "changed \<and> override = Some (Inl e')"
      by (simp add: sl run_slice_Inl)
    with Inl show ?thesis
      by (simp add: sl and_then_def)
  next
    case (Inr w1)
    then have "\<not> (changed \<and> (\<exists>e'. override = Some (Inl e')))"
      using run_slice_Inl [of changed override writes w] by (auto simp: sl)
    then have "first_thrown (sl # sls) = first_thrown sls"
      by (auto simp: sl split: option.splits sum.splits)
    with Inr Cons.IH [of w1] show ?thesis
      by (simp add: and_then_def)
  qed
qed

lemma batched_updates_thrown:
  "batched_updates imp options router oldState newState = Inl e
     \<longleftrightarrow> first_thrown (slices imp options oldState newState) = Some e"
  by (simp add: batched_updates_slices run_slices_thrown)

lemma navigated_query_Inl:
  "navigated_query imp options router oldState newState = Inl e
     \<longleftrightarrow> batched_updates imp options router oldState newState = Inl e"
  by (cases "batched_updates imp options router oldState newState")
     (auto simp: navigated_query_def and_then_def)

lemma update_thrown:
  "fst (update imp options router oldState newState)
     = first_thrown (slices imp options oldState newState)"
proof (cases "navigated_query imp options router oldState newState")
  case (Inl e)
  then have "first_thrown (slices imp options oldState newState) = Some e"
    by (simp add: navigated_query_Inl batched_updates_thrown)
  with Inl show ?thesis
    by (simp add: update_def)
next
  case (Inr q)
  have "first_thrown (slices imp options oldState newState) = None"
  proof (cases "first_thrown (slices imp options oldState newState)")
    case None
    then show ?thesis .
  next
    case (Some e)
    then have "navigated_query imp options router oldState newState = Inl e"
      by (simp add: navigated_query_Inl batched_updates_thrown)
    with Inr show ?thesis by simp
  qed
  with Inr show ?thesis
    by (simp add: update_def)
qed

lemma update_Inr:
  "navigated_query imp options router oldState newState = Inr q \<Longrightarrow>
     update imp options router oldState newState
       = (None, navigate (navigation_url imp router q) router)"
  by (simp add: update_def)

lemma update_Inl:
  "navigated_query imp options router oldState newState = Inl e \<Longrightarrow>
     update imp options router oldState newState = (Some e, router)"
  by (simp add: update_def)

lemma update_returns_iff:
  "fst (update imp options router oldState newState) = None \<longleftrightarrow>
     (\<exists>q. navigated_query imp options router oldState newState = Inr q)"
  by (cases "navigated_query imp options router oldState newState")
     (simp_all add: update_def)

lemma first_thrown_iff:
  "first_thrown sls \<noteq> None \<longleftrightarrow>
     (\<exists>sl \<in> set sls. fst sl \<and> (\<exists>e. fst (snd sl) = Some (Inl e)))"
  by (induction sls rule: first_thrown.induct)
     (auto split: option.splits sum.splits)

subsection \<open>Kept and deleted parameters\<close>


lemma unchanged_slice_touches_nothing:
  "\<not> fst sl \<Longrightarrow> slice_written sl = [] \<and> slice_deleted sl = []"
  by (cases sl) (simp add: slice_written_def slice_deleted_def)



lemma written_by_slices:
  "written_by (slices imp options oldState newState) =
     set (slice_written (slice_globalFilter imp options oldState newState))
     \<union> set (slice_written (slice_sorting imp options oldState newState))
     \<union> set (slice_written (slice_pagination imp options oldState newState))
     \<union> set (slice_written (slice_columnFilters imp options oldState newState))
     \<union> set (slice_written (slice_columnOrder imp options oldState newState))
     \<union> set (slice_written (slice_rowSelection imp options oldState newState))"
  by (simp add: slices_def written_by_def Un_assoc)

subsection \<open>The merge\<close>

lemma map_of_obj_assign_wf:
  "wf_query s \<Longrightarrow>
     map_of (obj_assign t s) k = (case map_of s k of Some v \<Rightarrow> Some v | None \<Rightarrow> map_of t k)"
proof (induction s arbitrary: t)
  case Nil
  then show ?case by (simp add: obj_assign_def)
next
  case (Cons kv s)
  have step: "obj_assign t (kv # s) = obj_assign (obj_set (fst kv) (snd kv) t) s"
    by (simp add: obj_assign_def split_beta)
  from Cons.prems have wf: "wf_query s" and fresh: "fst kv \<notin> fst ` set s"
    by (simp_all add: wf_query_def)
  from fresh have none: "map_of s (fst kv) = None"
    by (simp add: map_of_eq_None_iff)
  show ?case
    unfolding step using Cons.IH [OF wf, of "obj_set (fst kv) (snd kv) t"] none
    by (cases kv) (auto simp: map_of_obj_set split: option.splits)
qed

lemma wf_query_Nil: "wf_query []"
  by (simp add: wf_query_def)

lemma batched_updates_wf_updates:
  "batched_updates imp options router oldState newState = Inr w \<Longrightarrow> wf_query (snd w)"
  unfolding batched_updates_slices
  by (drule run_slices_wf_updates) (simp_all add: wf_query_Nil)

subsection \<open>Written parameters\<close>









subsection \<open>Decimal numbers\<close>

lemma nat_of_digits_append:
  "nat_of_digits (xs @ ys) acc
     = (case nat_of_digits xs acc of None \<Rightarrow> None | Some a \<Rightarrow> nat_of_digits ys a)"
  by (induction xs arbitrary: acc) simp_all

lemma of_char_digit: "d < 10 \<Longrightarrow> (of_char (digit_char d) :: nat) = 48 + d"
proof -
  assume "d < 10"
  then have "d \<in> {0, 1, 2, 3, 4, 5, 6, 7, 8, 9}"
    by auto
  then show ?thesis
    by (auto simp: digit_char_def)
qed

lemma string_of_nat_not_Nil: "string_of_nat n \<noteq> []"
  by (subst string_of_nat.simps) simp

lemma nat_of_digits_string_of_nat: "nat_of_digits (string_of_nat n) 0 = Some n"
proof (induction n rule: string_of_nat.induct)
  case (1 n)
  show ?case
  proof (cases "10 \<le> n")
    case False
    then show ?thesis
      by (subst string_of_nat.simps) (simp add: of_char_digit)
  next
    case True
    have d: "n mod 10 < 10" by simp
    from True "1.IH" have "nat_of_digits (string_of_nat (n div 10)) 0 = Some (n div 10)"
      by simp
    with True show ?thesis
      by (subst string_of_nat.simps)
         (simp add: nat_of_digits_append of_char_digit [OF d])
  qed
qed

lemma nat_of_string_of_nat: "nat_of_string (string_of_nat n) = Some n"
  by (simp add: nat_of_string_def string_of_nat_not_Nil nat_of_digits_string_of_nat)

lemma decode_scalar_simps:
  "decode_scalar QUndefined = None"
  "decode_scalar (QString (string_of_nat n)) = Some n"
  by (simp_all add: decode_scalar_def nat_of_string_of_nat)

subsection \<open>The debounce layer\<close>



subsection \<open>Decoding an encoding\<close>







subsection \<open>The tests of \<^verbatim>\<open>onStateChange.test.ts\<close>\<close>

text \<open>
  The four tests of the repository drive the update through the table hook. With the
  encoders of the specification the model gives the query parameters that the tests
  expect.
\<close>

lemma test_multiple_state_changes:
  "navigated_query spec_imports None (router_at ''/'' [])
     initial_state
     (initial_state\<lparr>globalFilter := Some ''test'',
        columnFilters := [\<lparr>filter_id = ''name'', filter_value = JString ''John''\<rparr>]\<rparr>)
   = Inr [(''globalFilter'', QString ''test''),
          (''columnFilters'', QString ''name.%22John%22'')]"
  by code_simp

lemma test_only_changed_properties:
  "navigated_query spec_imports None
     (router_at ''/'' [(''globalFilter'', QString ''initial'')])
     (initial_state\<lparr>globalFilter := Some ''initial''\<rparr>)
     (initial_state\<lparr>globalFilter := Some ''initial'',
        columnFilters := [\<lparr>filter_id = ''id'', filter_value = JString ''1''\<rparr>]\<rparr>)
   = Inr [(''globalFilter'', QString ''initial''),
          (''columnFilters'', QString ''id.%221%22'')]"
  by code_simp

lemma test_clearing_filters:
  "navigated_query spec_imports None
     (router_at ''/'' [(''globalFilter'', QString ''test''),
                       (''columnFilters'', QString ''name.%22John%22'')])
     (initial_state\<lparr>globalFilter := Some ''test'',
        columnFilters := [\<lparr>filter_id = ''name'', filter_value = JString ''John''\<rparr>]\<rparr>)
     initial_state
   = Inr []"
  by code_simp

lemma test_pagination_changes:
  "navigated_query spec_imports None (router_at ''/'' [])
     initial_state
     (initial_state\<lparr>pagination := \<lparr>pageIndex = 2, pageSize = 20\<rparr>\<rparr>)
   = Inr [(''pageIndex'', QString ''3''), (''pageSize'', QString ''20'')]"
  by code_simp

lemma test_navigated_urls:
  "snd (update spec_imports None (router_at ''/'' [])
     initial_state
     (initial_state\<lparr>globalFilter := Some ''test'',
        columnFilters := [\<lparr>filter_id = ''name'', filter_value = JString ''John''\<rparr>]\<rparr>))
   = (router_at ''/'' [])
       \<lparr>navigated := [''/?globalFilter=test&columnFilters=name.%2522John%2522'']\<rparr>"
  "snd (update spec_imports None
     (router_at ''/'' [(''globalFilter'', QString ''test''),
                       (''columnFilters'', QString ''name.%22John%22'')])
     (initial_state\<lparr>globalFilter := Some ''test'',
        columnFilters := [\<lparr>filter_id = ''name'', filter_value = JString ''John''\<rparr>]\<rparr>)
     initial_state)
   = (router_at ''/'' [(''globalFilter'', QString ''test''),
                       (''columnFilters'', QString ''name.%22John%22'')])
       \<lparr>navigated := [''/'']\<rparr>"
  by code_simp+

section \<open>The claims\<close>

subsection \<open>C1: one navigation for each update\<close>

text \<open>
  Claim C1, as amended. Every call of \<open>update\<close> that returns without an exception, that
  is, in which no override encoder throws, calls the router's \<open>navigate\<close> exactly once,
  however many slices changed. A call \<open>update s s\<close> with the same state twice never
  throws, writes nothing to \<open>updates\<close>, deletes nothing from the copy of the query, and
  navigates exactly once, to the cleaned query of the router.
\<close>

theorem one_navigation_per_completed_update:
  "(fst (update imp options router oldState newState) = None \<longrightarrow>
      (\<exists>url. navigated (snd (update imp options router oldState newState))
                = navigated router @ [url]))
   \<and> batched_updates imp options router s s = Inr (query router, [])
   \<and> fst (update imp options router s s) = None
   \<and> navigated (snd (update imp options router s s))
        = navigated router @ [navigation_url imp router (cleanQuery (query router))]"
proof (intro conjI impI)
  assume "fst (update imp options router oldState newState) = None"
  then obtain q where "navigated_query imp options router oldState newState = Inr q"
    by (auto simp: update_returns_iff)
  then show "\<exists>url. navigated (snd (update imp options router oldState newState))
                = navigated router @ [url]"
    by (simp add: update_Inr navigate_def)
next
  show same: "batched_updates imp options router s s = Inr (query router, [])"
    by (simp add: batched_updates_def and_then_def step_globalFilter_def step_sorting_def
          step_pagination_def step_columnFilters_def step_columnOrder_def
          step_rowSelection_def)
  then have nav: "navigated_query imp options router s s = Inr (cleanQuery (query router))"
    by (simp add: navigated_query_def and_then_def finalQuery_def obj_assign_def)
  then show "fst (update imp options router s s) = None"
    by (simp add: update_Inr)
  from nav show "navigated (snd (update imp options router s s))
        = navigated router @ [navigation_url imp router (cleanQuery (query router))]"
    by (simp add: update_Inr navigate_def)
qed

theorem one_navigation_per_completed_update_witness:
  "fst (update spec_imports None (router_at ''/users'' [(''tab'', QString ''all'')])
         initial_state (initial_state\<lparr>globalFilter := Some ''ann''\<rparr>)) = None
   \<and> (\<exists>url. navigated (snd (update spec_imports None
                (router_at ''/users'' [(''tab'', QString ''all'')])
                initial_state (initial_state\<lparr>globalFilter := Some ''ann''\<rparr>)))
        = navigated (router_at ''/users'' [(''tab'', QString ''all'')]) @ [url])"
proof -
  have h: "fst (update spec_imports None (router_at ''/users'' [(''tab'', QString ''all'')])
         initial_state (initial_state\<lparr>globalFilter := Some ''ann''\<rparr>)) = None"
    by code_simp
  from one_navigation_per_completed_update [THEN conjunct1, rule_format, OF h] h
  show ?thesis by (rule conjI [rotated])
qed

text \<open>
  The claim as stated, for every call, fails when an override encoder throws: the sorting
  changed, the override encoder for sorting throws, and \<open>navigate\<close> is not called at all.
\<close>

theorem navigate_not_called_when_encoder_throws:
  "update spec_imports
     (options_with (no_encoders\<lparr>enc_sorting := Some (\<lambda>v. Inl (Thrown ''bad encoder''))\<rparr>))
     (router_at ''/'' [])
     initial_state
     (initial_state\<lparr>sorting := [\<lparr>sort_id = ''name'', desc = False\<rparr>]\<rparr>)
   = (Some (Thrown ''bad encoder''), router_at ''/'' [])
   \<and> navigated (router_at ''/'' []) = []"
  by code_simp

subsection \<open>C2: parameters that no changed slice touches\<close>



subsection \<open>C3: an undefined encoding deletes the parameter\<close>



subsection \<open>C4: the default pagination codec\<close>

text \<open>
  Claim C4, on the pagination codec as the specification describes it (the module
  \<^verbatim>\<open>encoder-decoder\<close> is not among the source files). The encoding of the page index
  does not depend on the page size, of the value or of the default, and the encoding of
  the page size does not depend on the page index. Each of the two is omitted exactly
  when the field equals the field of the configured default. A page index \<open>i\<close> is written
  as \<open>i + 1\<close> and a written \<open>i + 1\<close> is read as \<open>i\<close>, so that decoding an encoding gives the
  pagination back. Through the update: a change of the pagination to page index 2 and
  page size 20 navigates to a query with \<open>pageIndex=3\<close> and \<open>pageSize=20\<close>.
\<close>

theorem pagination_codec:
  "fst (spec_encodePagination (p\<lparr>pageSize := s\<rparr>) (map_option (\<lambda>d. d\<lparr>pageSize := s'\<rparr>) d))
     = fst (spec_encodePagination p d)
   \<and> snd (spec_encodePagination (p\<lparr>pageIndex := i\<rparr>) (map_option (\<lambda>d. d\<lparr>pageIndex := i'\<rparr>) d))
     = snd (spec_encodePagination p d)
   \<and> (fst (spec_encodePagination p d) = QUndefined) = (map_option pageIndex d = Some (pageIndex p))
   \<and> (snd (spec_encodePagination p d) = QUndefined) = (map_option pageSize d = Some (pageSize p))
   \<and> fst (spec_encodePagination p None) = QString (string_of_nat (pageIndex p + 1))
   \<and> snd (spec_encodePagination p None) = QString (string_of_nat (pageSize p))
   \<and> spec_decodePagination (QString (string_of_nat (i + 1)), QString (string_of_nat s)) dflt
       = \<lparr>pageIndex = i, pageSize = s\<rparr>
   \<and> spec_decodePagination (spec_encodePagination p (Some dflt)) dflt = p
   \<and> navigated_query spec_imports None (router_at ''/'' []) initial_state
        (initial_state\<lparr>pagination := \<lparr>pageIndex = 2, pageSize = 20\<rparr>\<rparr>)
       = Inr [(''pageIndex'', QString ''3''), (''pageSize'', QString ''20'')]"
proof (intro conjI)
  show "spec_decodePagination (spec_encodePagination p (Some dflt)) dflt = p"
    by (cases p) (simp add: spec_decodePagination_def spec_encodePagination_def decode_scalar_simps)
  show "navigated_query spec_imports None (router_at ''/'' []) initial_state
        (initial_state\<lparr>pagination := \<lparr>pageIndex = 2, pageSize = 20\<rparr>\<rparr>)
       = Inr [(''pageIndex'', QString ''3''), (''pageSize'', QString ''20'')]"
    by code_simp
qed (simp_all add: spec_encodePagination_def spec_decodePagination_def decode_scalar_simps
       option.map_comp comp_def)

subsection \<open>C5: decoding the encoding of a state\<close>




subsection \<open>C6: merge, clean, navigate\<close>

text \<open>
  Claim C6. Let the six slices run without an exception and leave the work objects
  \<open>w = (query, updates)\<close>. The merged query holds for every key the value of \<open>updates\<close>
  where \<open>updates\<close> has the key, and the value of the copy of the router's query otherwise.
  The navigated query is the merged query without the entries whose value is undefined,
  and nothing else is removed. The call navigates once more, to the pathname followed by
  \<open>?\<close> and the serialised query, and to the pathname alone when the serialised query is
  the empty string.
\<close>

theorem merge_clean_navigate:
  assumes "batched_updates imp options router oldState newState = Inr w"
  shows "map_of (finalQuery w) k
           = (case map_of (snd w) k of Some v \<Rightarrow> Some v | None \<Rightarrow> map_of (fst w) k)
     \<and> navigated_query imp options router oldState newState = Inr (cleanQuery (finalQuery w))
     \<and> set (cleanQuery (finalQuery w)) = set (finalQuery w) - {kv. snd kv = QUndefined}
     \<and> update imp options router oldState newState
         = (None, router\<lparr>navigated := navigated router @
              [pathname router @
                 (if toSearchParams imp (cleanQuery (finalQuery w)) = [] then []
                  else ''?'' @ toSearchParams imp (cleanQuery (finalQuery w)))]\<rparr>)"
proof (intro conjI)
  show "map_of (finalQuery w) k
           = (case map_of (snd w) k of Some v \<Rightarrow> Some v | None \<Rightarrow> map_of (fst w) k)"
    unfolding finalQuery_def
    by (rule map_of_obj_assign_wf [OF batched_updates_wf_updates [OF assms]])
  show nav: "navigated_query imp options router oldState newState = Inr (cleanQuery (finalQuery w))"
    using assms by (simp add: navigated_query_def and_then_def)
  show "set (cleanQuery (finalQuery w)) = set (finalQuery w) - {kv. snd kv = QUndefined}"
    by (auto simp: cleanQuery_def)
  show "update imp options router oldState newState
         = (None, router\<lparr>navigated := navigated router @
              [pathname router @
                 (if toSearchParams imp (cleanQuery (finalQuery w)) = [] then []
                  else ''?'' @ toSearchParams imp (cleanQuery (finalQuery w)))]\<rparr>)"
    by (simp add: update_Inr [OF nav] navigate_def navigation_url_def Let_def)
qed

theorem merge_clean_navigate_witness:
  "batched_updates spec_imports None
     (router_at ''/users'' [(''tab'', QString ''all''), (''draft'', QUndefined),
                            (''globalFilter'', QString ''bob'')])
     (initial_state\<lparr>globalFilter := Some ''bob''\<rparr>)
     (initial_state\<lparr>globalFilter := Some ''ann lee''\<rparr>)
     = Inr ([(''tab'', QString ''all''), (''draft'', QUndefined),
             (''globalFilter'', QString ''bob'')],
            [(''globalFilter'', QString ''ann lee'')])
   \<and> update spec_imports None
     (router_at ''/users'' [(''tab'', QString ''all''), (''draft'', QUndefined),
                            (''globalFilter'', QString ''bob'')])
     (initial_state\<lparr>globalFilter := Some ''bob''\<rparr>)
     (initial_state\<lparr>globalFilter := Some ''ann lee''\<rparr>)
     = (None, (router_at ''/users'' [(''tab'', QString ''all''), (''draft'', QUndefined),
                            (''globalFilter'', QString ''bob'')])
          \<lparr>navigated := [''/users?tab=all&globalFilter=ann+lee'']\<rparr>)"
proof -
  let ?router = "router_at ''/users'' [(''tab'', QString ''all''), (''draft'', QUndefined),
                            (''globalFilter'', QString ''bob'')]"
  let ?w = "([(''tab'', QString ''all''), (''draft'', QUndefined),
             (''globalFilter'', QString ''bob'')],
            [(''globalFilter'', QString ''ann lee'')])"
  have h: "batched_updates spec_imports None ?router
     (initial_state\<lparr>globalFilter := Some ''bob''\<rparr>)
     (initial_state\<lparr>globalFilter := Some ''ann lee''\<rparr>) = Inr ?w"
    by code_simp
  have url: "navigated ?router @
              [pathname ?router @
                 (if toSearchParams spec_imports (cleanQuery (finalQuery ?w)) = [] then []
                  else ''?'' @ toSearchParams spec_imports (cleanQuery (finalQuery ?w)))]
            = [''/users?tab=all&globalFilter=ann+lee'']"
    by code_simp
  from merge_clean_navigate [OF h, THEN conjunct2, THEN conjunct2, THEN conjunct2]
  have "update spec_imports None ?router
     (initial_state\<lparr>globalFilter := Some ''bob''\<rparr>)
     (initial_state\<lparr>globalFilter := Some ''ann lee''\<rparr>)
     = (None, ?router\<lparr>navigated := [''/users?tab=all&globalFilter=ann+lee'']\<rparr>)"
    unfolding url .
  with h show ?thesis by (rule conjI)
qed

subsection \<open>C7: exceptions of override encoders\<close>

text \<open>
  Claim C7. The only exceptions of \<open>update\<close> are those of override encoders: the call
  throws if and only if some slice changed and its override encoder throws, and the
  exception is that of the first such slice in the order of the body. When the call
  throws, the router is as before the call: \<open>navigate\<close> was not reached. In particular an
  exception \<open>e\<close> of the override encoder of the global filter, the first slice, leaves the
  call as \<open>e\<close>.
\<close>

theorem override_exception_propagates:
  "fst (update imp options router oldState newState)
       = first_thrown (slices imp options oldState newState)
   \<and> (fst (update imp options router oldState newState) \<noteq> None \<longleftrightarrow>
        (\<exists>sl \<in> set (slices imp options oldState newState).
            fst sl \<and> (\<exists>e. fst (snd sl) = Some (Inl e))))
   \<and> (fst (update imp options router oldState newState) \<noteq> None \<longrightarrow>
        snd (update imp options router oldState newState) = router)
   \<and> (opt_chain options encoders enc_globalFilter = Some encoder
        \<and> globalFilter newState \<noteq> globalFilter oldState
        \<and> encoder (globalFilter newState) = Inl e \<longrightarrow>
        update imp options router oldState newState = (Some e, router))"
proof (intro conjI impI)
  show "fst (update imp options router oldState newState)
          = first_thrown (slices imp options oldState newState)"
    by (rule update_thrown)
next
  show "fst (update imp options router oldState newState) \<noteq> None \<longleftrightarrow>
        (\<exists>sl \<in> set (slices imp options oldState newState).
            fst sl \<and> (\<exists>e. fst (snd sl) = Some (Inl e)))"
    by (simp only: update_thrown first_thrown_iff)
next
  assume "fst (update imp options router oldState newState) \<noteq> None"
  then show "snd (update imp options router oldState newState) = router"
    by (cases "navigated_query imp options router oldState newState")
       (simp_all add: update_def)
next
  assume a: "opt_chain options encoders enc_globalFilter = Some encoder
        \<and> globalFilter newState \<noteq> globalFilter oldState
        \<and> encoder (globalFilter newState) = Inl e"
  then have "first_thrown (slices imp options oldState newState) = Some e"
    by (simp add: slices_def slice_globalFilter_def)
  then have "navigated_query imp options router oldState newState = Inl e"
    by (simp add: navigated_query_Inl batched_updates_thrown)
  then show "update imp options router oldState newState = (Some e, router)"
    by (rule update_Inl)
qed

theorem override_exception_propagates_witness:
  "update spec_imports
     (options_with (no_encoders\<lparr>enc_globalFilter := Some (\<lambda>v. Inl (Thrown ''boom''))\<rparr>))
     (router_at ''/table'' [(''globalFilter'', QString ''a'')])
     (initial_state\<lparr>globalFilter := Some ''a''\<rparr>)
     (initial_state\<lparr>globalFilter := Some ''b''\<rparr>)
   = (Some (Thrown ''boom''), router_at ''/table'' [(''globalFilter'', QString ''a'')])"
proof -
  let ?options = "options_with (no_encoders\<lparr>enc_globalFilter := Some (\<lambda>v. Inl (Thrown ''boom''))\<rparr>)"
  let ?old = "initial_state\<lparr>globalFilter := Some ''a''\<rparr>"
  let ?new = "initial_state\<lparr>globalFilter := Some ''b''\<rparr>"
  have h: "opt_chain ?options encoders enc_globalFilter = Some (\<lambda>v. Inl (Thrown ''boom''))
        \<and> globalFilter ?new \<noteq> globalFilter ?old
        \<and> (\<lambda>v. Inl (Thrown ''boom'')) (globalFilter ?new) = Inl (Thrown ''boom'')"
    by (simp add: opt_chain_def options_with_def no_encoders_def initial_state_def)
  from override_exception_propagates
         [THEN conjunct2, THEN conjunct2, THEN conjunct2, rule_format, OF h]
  show ?thesis .
qed

subsection \<open>C8: two changes within the delay\<close>



subsection \<open>C9: the pagination is encoded as a unit\<close>




subsection \<open>C10: an override encoder is merged, never deleted for\<close>



end
